theory Spec2Isabelle
  imports Complex_Main
begin

section \<open>JavaScript values\<close>

text \<open>
  The program is JavaScript. Its numbers are IEEE binary64 values; here a finite number is an
  exact rational, so rounding to binary64, overflow to Infinity and the negative zero are
  not modelled. NaN and the two infinities are values of their own, because the code tests
  for NaN (\<^verbatim>\<open>Number.isNaN\<close>) and never for finiteness.
\<close>

datatype jsnum = NaN | PosInfinity | NegInfinity | Finite rat

text \<open>
  The values the functions of \<^verbatim>\<open>utils.js\<close> and \<^verbatim>\<open>validation.js\<close> receive: text of a table
  cell or of the front matter, a number, \<^verbatim>\<open>null\<close>, or \<^verbatim>\<open>undefined\<close> for an absent field or
  argument. A JavaScript string is modelled by its UTF-8 bytes.
\<close>

datatype jsval = JUndefined | JNull | JStr string | JNum jsnum

text \<open>Every failure of the program is \<^verbatim>\<open>throw new Error(message)\<close>.\<close>

datatype error = Error string

subsection \<open>Arithmetic\<close>

definition neg :: "jsnum \<Rightarrow> jsnum" where
  "neg x = (case x of NaN \<Rightarrow> NaN | PosInfinity \<Rightarrow> NegInfinity
            | NegInfinity \<Rightarrow> PosInfinity | Finite a \<Rightarrow> Finite (- a))"

text \<open>The sign of a number that is not NaN: \<open>1\<close>, \<open>0\<close> or \<open>-1\<close>.\<close>

definition signOf :: "jsnum \<Rightarrow> int" where
  "signOf x = (case x of NaN \<Rightarrow> 0 | PosInfinity \<Rightarrow> 1 | NegInfinity \<Rightarrow> - 1
               | Finite a \<Rightarrow> (if 0 < a then 1 else if a < 0 then - 1 else 0))"

definition infinityOf :: "int \<Rightarrow> jsnum" where
  "infinityOf s = (if 0 < s then PosInfinity else if s < 0 then NegInfinity else NaN)"

text \<open>\<^verbatim>\<open>x + y\<close> on numbers.\<close>

fun jadd :: "jsnum \<Rightarrow> jsnum \<Rightarrow> jsnum" where
  "jadd NaN _ = NaN"
| "jadd _ NaN = NaN"
| "jadd (Finite a) (Finite b) = Finite (a + b)"
| "jadd PosInfinity NegInfinity = NaN"
| "jadd NegInfinity PosInfinity = NaN"
| "jadd PosInfinity _ = PosInfinity"
| "jadd NegInfinity _ = NegInfinity"
| "jadd (Finite a) y = y"

text \<open>\<^verbatim>\<open>x - y\<close> on numbers.\<close>

definition jsub :: "jsnum \<Rightarrow> jsnum \<Rightarrow> jsnum" where
  "jsub x y = jadd x (neg y)"

text \<open>\<^verbatim>\<open>x * y\<close> on numbers: an infinity times zero is NaN.\<close>

fun jmul :: "jsnum \<Rightarrow> jsnum \<Rightarrow> jsnum" where
  "jmul NaN _ = NaN"
| "jmul _ NaN = NaN"
| "jmul (Finite a) (Finite b) = Finite (a * b)"
| "jmul x y = infinityOf (signOf x * signOf y)"

text \<open>
  \<^verbatim>\<open>x / y\<close> on numbers. A zero divisor counts as the positive zero: a non-zero number
  divided by it is an infinity, zero divided by it is NaN.
\<close>

fun jdiv :: "jsnum \<Rightarrow> jsnum \<Rightarrow> jsnum" where
  "jdiv NaN _ = NaN"
| "jdiv _ NaN = NaN"
| "jdiv (Finite a) (Finite b) =
     (if b = 0 then infinityOf (signOf (Finite a)) else Finite (a / b))"
| "jdiv (Finite a) _ = Finite 0"
| "jdiv x (Finite b) = infinityOf (signOf x * (if b < 0 then - 1 else 1))"
| "jdiv _ _ = NaN"

text \<open>\<^verbatim>\<open>x > 0\<close> on numbers: false for NaN.\<close>

definition gtZero :: "jsnum \<Rightarrow> bool" where
  "gtZero x \<longleftrightarrow> signOf x = 1"

text \<open>\<^verbatim>\<open>Math.round\<close>: the nearest integer, a tie going up.\<close>

definition mathRound :: "jsnum \<Rightarrow> jsnum" where
  "mathRound x = (case x of Finite a \<Rightarrow> Finite (of_int \<lfloor>a + 1 / 2\<rfloor>) | _ \<Rightarrow> x)"

text \<open>\<^verbatim>\<open>Number.isNaN\<close>: true for the number NaN only, with no coercion.\<close>

definition isNaN :: "jsval \<Rightarrow> bool" where
  "isNaN v \<longleftrightarrow> v = JNum NaN"

text \<open>\<^verbatim>\<open>Number.isInteger\<close>: true for a finite number without fractional part only.\<close>

definition isInteger :: "jsval \<Rightarrow> bool" where
  "isInteger v = (case v of JNum (Finite a) \<Rightarrow> of_int \<lfloor>a\<rfloor> = a | _ \<Rightarrow> False)"

subsection \<open>Text and numbers\<close>

definition isDigit :: "char \<Rightarrow> bool" where
  "isDigit c \<longleftrightarrow> 48 \<le> (of_char c :: nat) \<and> (of_char c :: nat) \<le> 57"

definition digitVal :: "char \<Rightarrow> nat" where
  "digitVal c = of_char c - 48"

text \<open>The value of a hexadecimal digit, if the character is one.\<close>

definition hexVal :: "char \<Rightarrow> nat option" where
  "hexVal c = (let n = (of_char c :: nat) in
     if 48 \<le> n \<and> n \<le> 57 then Some (n - 48)
     else if 65 \<le> n \<and> n \<le> 70 then Some (n - 55)
     else if 97 \<le> n \<and> n \<le> 102 then Some (n - 87)
     else None)"

text \<open>The number a digit sequence denotes in a radix, most significant digit first.\<close>

definition digitsValue :: "nat \<Rightarrow> nat list \<Rightarrow> nat" where
  "digitsValue radix ds = foldl (\<lambda>acc d. acc * radix + d) 0 ds"

text \<open>The decimal digits of a natural number, as \<^verbatim>\<open>String(n)\<close> prints an index or a count.\<close>

definition digitChar :: "nat \<Rightarrow> char" where
  "digitChar d = ''0123456789'' ! d"

fun natToString :: "nat \<Rightarrow> string" where
  "natToString n =
     (if n < 10 then [digitChar n] else natToString (n div 10) @ [digitChar (n mod 10)])"

declare natToString.simps [simp del]

text \<open>
  The length in bytes of a white space or line terminator character at the head of a text
  (\<^verbatim>\<open>StrWhiteSpaceChar\<close> of ECMAScript), \<open>0\<close> if there is none: TAB, LF, VT, FF, CR, SP, and in
  UTF-8 the characters U+00A0, U+1680, U+2000 to U+200A, U+2028, U+2029, U+202F, U+205F,
  U+3000 and U+FEFF.
\<close>

definition whiteSpaceLength :: "string \<Rightarrow> nat" where
  "whiteSpaceLength s = (let bs = map (of_char :: char \<Rightarrow> nat) (take 3 s) in
     case bs of
       [] \<Rightarrow> 0
     | b0 # r \<Rightarrow>
         if b0 \<in> {9, 10, 11, 12, 13, 32} then 1
         else (case r of
           [] \<Rightarrow> 0
         | b1 # r' \<Rightarrow>
             if b0 = 194 \<and> b1 = 160 then 2
             else (case r' of
               [] \<Rightarrow> 0
             | b2 # _ \<Rightarrow>
                 if b0 = 225 \<and> b1 = 154 \<and> b2 = 128 then 3
                 else if b0 = 226 \<and> b1 = 128 \<and> (128 \<le> b2 \<and> b2 \<le> 138 \<or> b2 \<in> {168, 169, 175}) then 3
                 else if b0 = 226 \<and> b1 = 129 \<and> b2 = 159 then 3
                 else if b0 = 227 \<and> b1 = 128 \<and> b2 = 128 then 3
                 else if b0 = 239 \<and> b1 = 187 \<and> b2 = 191 then 3
                 else 0)))"

text \<open>Dropping the leading white space of a text.\<close>

function skipWhiteSpace :: "string \<Rightarrow> string" where
  "skipWhiteSpace s =
     (if whiteSpaceLength s = 0 \<or> s = [] then s
      else skipWhiteSpace (drop (whiteSpaceLength s) s))"
  by pat_completeness auto
termination
  by (relation "measure length") auto

declare skipWhiteSpace.simps [simp del]

text \<open>Whether a text starts with another one.\<close>

definition startsWith :: "string \<Rightarrow> string \<Rightarrow> bool" where
  "startsWith p s \<longleftrightarrow> take (length p) s = p"

text \<open>
  An optional sign at the head of a text: the factor it stands for and the text after it.
\<close>

definition takeSign :: "string \<Rightarrow> rat \<times> string" where
  "takeSign s = (case s of
       c # r \<Rightarrow> if c = CHR ''-'' then (- 1, r) else if c = CHR ''+'' then (1, r) else (1, s)
     | [] \<Rightarrow> (1, s))"

text \<open>
  An exponent part (\<^verbatim>\<open>e\<close> or \<^verbatim>\<open>E\<close>, an optional sign, at least one digit) at the head of a
  text: the exponent and the text after it; exponent \<open>0\<close> and the text itself if there is
  none.
\<close>

definition takeExponent :: "string \<Rightarrow> int \<times> string" where
  "takeExponent s = (case s of
       c # r \<Rightarrow>
         if c = CHR ''e'' \<or> c = CHR ''E'' then
           (let (sg, r') = takeSign r; ds = takeWhile isDigit r' in
            if ds = [] then (0, s)
            else ((if sg < 0 then - 1 else 1) * int (digitsValue 10 (map digitVal ds)),
                  dropWhile isDigit r'))
         else (0, s)
     | [] \<Rightarrow> (0, s))"

text \<open>\<open>m\<close> times ten to the power \<open>e\<close>.\<close>

definition scale10 :: "rat \<Rightarrow> int \<Rightarrow> rat" where
  "scale10 m e = (if 0 \<le> e then m * 10 ^ nat e else m / 10 ^ nat (- e))"

text \<open>
  The longest prefix of a text that is a \<^verbatim>\<open>StrDecimalLiteral\<close> of ECMAScript (an optional
  sign, then \<^verbatim>\<open>Infinity\<close> or digits with an optional fraction and an optional exponent):
  its value and the text after it; \<open>None\<close> if no prefix is one.
\<close>

definition decimalPrefix :: "string \<Rightarrow> (jsnum \<times> string) option" where
  "decimalPrefix s =
     (let (sg, r) = takeSign s in
      if startsWith ''Infinity'' r
      then Some (if sg < 0 then NegInfinity else PosInfinity, drop 8 r)
      else
        let ip = takeWhile isDigit r; r1 = dropWhile isDigit r;
            hasDot = (r1 \<noteq> [] \<and> hd r1 = CHR ''.'');
            fp = (if hasDot then takeWhile isDigit (tl r1) else []);
            r2 = (if hasDot then dropWhile isDigit (tl r1) else r1)
        in
          if ip = [] \<and> fp = [] then None
          else
            let (e, r3) = takeExponent r2;
                m = of_nat (digitsValue 10 (map digitVal ip))
                    + of_nat (digitsValue 10 (map digitVal fp)) / 10 ^ length fp
            in Some (Finite (sg * scale10 m e), r3))"

text \<open>\<^verbatim>\<open>parseFloat\<close> of a text: leading white space is skipped, what follows the number is ignored.\<close>

definition parseFloatText :: "string \<Rightarrow> jsnum" where
  "parseFloatText s = (case decimalPrefix (skipWhiteSpace s) of
       None \<Rightarrow> NaN | Some (x, _) \<Rightarrow> x)"

text \<open>
  \<^verbatim>\<open>parseFloat\<close> first turns its argument into text. A number printed and read again is
  the same number; \<^verbatim>\<open>undefined\<close> and \<^verbatim>\<open>null\<close> print as words that are no number.
\<close>

definition parseFloat :: "jsval \<Rightarrow> jsnum" where
  "parseFloat v = (case v of JStr s \<Rightarrow> parseFloatText s | JNum x \<Rightarrow> x | _ \<Rightarrow> NaN)"

text \<open>
  \<^verbatim>\<open>parseInt(text, 10)\<close>: leading white space is skipped, then an optional sign and the
  longest run of decimal digits is read; NaN if there is no digit.
\<close>

definition parseInt10 :: "string \<Rightarrow> jsnum" where
  "parseInt10 s =
     (let (sg, r) = takeSign (skipWhiteSpace s); ds = takeWhile isDigit r in
      if ds = [] then NaN else Finite (sg * of_nat (digitsValue 10 (map digitVal ds))))"

text \<open>
  A \<^verbatim>\<open>NonDecimalIntegerLiteral\<close> at the head of a text (\<^verbatim>\<open>0x\<close>, \<^verbatim>\<open>0o\<close> or \<^verbatim>\<open>0b\<close> in either
  case, then at least one digit of that radix): its value and the text after it.
\<close>

definition radixPrefix :: "string \<Rightarrow> (jsnum \<times> string) option" where
  "radixPrefix s = (case s of
       z # x # r \<Rightarrow>
         if z \<noteq> CHR ''0'' then None
         else
           let radix = (if x = CHR ''x'' \<or> x = CHR ''X'' then 16
                        else if x = CHR ''o'' \<or> x = CHR ''O'' then 8
                        else if x = CHR ''b'' \<or> x = CHR ''B'' then 2 else (0::nat));
               ok = (\<lambda>c. case hexVal c of Some d \<Rightarrow> d < radix | None \<Rightarrow> False);
               ds = takeWhile ok r
           in if ds = [] then None
              else Some (Finite (of_nat (digitsValue radix (map (the \<circ> hexVal) ds))),
                         dropWhile ok r)
     | _ \<Rightarrow> None)"

text \<open>
  \<^verbatim>\<open>ToNumber\<close> of a text, the coercion that \<^verbatim>\<open>*\<close>, \<^verbatim>\<open>-\<close> and \<^verbatim>\<open>>\<close> apply: white space on
  both sides is dropped, empty text is \<open>0\<close>, and the whole rest must be one numeric literal.
\<close>

definition stringToNumber :: "string \<Rightarrow> jsnum" where
  "stringToNumber s =
     (let t = skipWhiteSpace s in
      if t = [] then Finite 0
      else (case radixPrefix t of
          Some (x, r) \<Rightarrow> if skipWhiteSpace r = [] then x else NaN
        | None \<Rightarrow> (case decimalPrefix t of
              Some (x, r) \<Rightarrow> if skipWhiteSpace r = [] then x else NaN
            | None \<Rightarrow> NaN)))"

definition toNumber :: "jsval \<Rightarrow> jsnum" where
  "toNumber v = (case v of JUndefined \<Rightarrow> NaN | JNull \<Rightarrow> Finite 0
                 | JStr s \<Rightarrow> stringToNumber s | JNum x \<Rightarrow> x)"

text \<open>
  \<^verbatim>\<open>x.toFixed(2)\<close>. NaN and the infinities print as their names. A negative number prints
  as a minus sign and its absolute value. Below \<open>10\<^sup>2\<^sup>1\<close> the digits are those of the
  integer nearest to a hundred times the value (the larger one at a tie), with a point
  before the last two and at least one digit before the point.
\<close>

definition fixedDigits :: "rat \<Rightarrow> string" where
  "fixedDigits a =
     (let m = natToString (nat \<lfloor>a * 100 + 1 / 2\<rfloor>);
          m' = replicate (3 - length m) CHR ''0'' @ m
      in take (length m' - 2) m' @ ''.'' @ drop (length m' - 2) m')"

text \<open>
  From \<open>10\<^sup>2\<^sup>1\<close> on, \<^verbatim>\<open>toFixed\<close> prints as \<^verbatim>\<open>String(x)\<close> does, in exponent notation. Every
  binary64 of that size is an integer; its digits are taken here from the exact value,
  without the trailing zeros.
\<close>

definition exponentDigits :: "rat \<Rightarrow> string" where
  "exponentDigits a =
     (let ds = natToString (nat \<lfloor>a\<rfloor>);
          sd = rev (dropWhile (\<lambda>c. c = CHR ''0'') (rev ds))
      in (if length sd \<le> 1 then sd else hd sd # ''.'' @ tl sd)
         @ ''e+'' @ natToString (length ds - 1))"

definition toFixed2 :: "jsnum \<Rightarrow> string" where
  "toFixed2 x = (case x of
       NaN \<Rightarrow> ''NaN''
     | PosInfinity \<Rightarrow> ''Infinity''
     | NegInfinity \<Rightarrow> ''-Infinity''
     | Finite a \<Rightarrow>
         (if a < 0 then ''-'' else [])
         @ (if 10 ^ 21 \<le> \<bar>a\<bar> then exponentDigits \<bar>a\<bar> else fixedDigits \<bar>a\<bar>))"

text \<open>\<^verbatim>\<open>toLowerCase\<close>, on the letters A to Z; every other byte stays.\<close>

definition toLowerCase :: "string \<Rightarrow> string" where
  "toLowerCase s =
     map (\<lambda>c. let n = (of_char c :: nat) in if 65 \<le> n \<and> n \<le> 90 then char_of (n + 32) else c) s"

section \<open>utils.js\<close>

subsection \<open>The currency table\<close>

text \<open>
  \<^verbatim>\<open>CURRENCIES\<close> is an array of objects with one property each, the currency code, whose
  value is the symbol (in UTF-8 here).
\<close>

type_synonym object = "(string \<times> string) list"

definition CURRENCIES :: "object list" where
  "CURRENCIES =
     [[(''usd'', ''$'')], [(''aud'', ''$'')], [(''gbp'', [CHR 0xC2, CHR 0xA3])],
      [(''eur'', [CHR 0xE2, CHR 0x82, CHR 0xAC])], [(''inr'', [CHR 0xE2, CHR 0x82, CHR 0xB9])],
      [(''brl'', ''R$'')], [(''cad'', ''$'')], [(''hkd'', ''$'')],
      [(''ils'', [CHR 0xE2, CHR 0x82, CHR 0xAA])], [(''jpy'', [CHR 0xC2, CHR 0xA5])],
      [(''mxn'', ''$'')], [(''twd'', ''NT$'')], [(''nzd'', ''$'')], [(''php'', ''P'')],
      [(''sgd'', ''$'')], [(''thb'', [CHR 0xE0, CHR 0xB8, CHR 0xBF])], [(''kes'', ''Ksh'')],
      [(''ngn'', [CHR 0xE2, CHR 0x82, CHR 0xA6])]]"

text \<open>
  What reading a property \<^verbatim>\<open>obj[key]\<close> of such an object gives: the text of an own
  property, a member inherited from \<^verbatim>\<open>Object.prototype\<close>, or \<^verbatim>\<open>undefined\<close>.
\<close>

datatype property = Text string | Inherited string | Undefined

definition objectPrototype :: "string list" where
  "objectPrototype =
     [''constructor'', ''__defineGetter__'', ''__defineSetter__'', ''hasOwnProperty'',
      ''__lookupGetter__'', ''__lookupSetter__'', ''isPrototypeOf'', ''propertyIsEnumerable'',
      ''toString'', ''valueOf'', ''__proto__'', ''toLocaleString'']"

definition getProperty :: "object \<Rightarrow> string \<Rightarrow> property" where
  "getProperty obj key = (case map_of obj key of
       Some v \<Rightarrow> Text v
     | None \<Rightarrow> if key \<in> set objectPrototype then Inherited key else Undefined)"

text \<open>
  Truthiness (\<^verbatim>\<open>Boolean(v)\<close>): the empty text and \<^verbatim>\<open>undefined\<close> are falsy, a function or an
  object is truthy.
\<close>

definition truthy :: "property \<Rightarrow> bool" where
  "truthy p = (case p of Text s \<Rightarrow> s \<noteq> [] | Inherited _ \<Rightarrow> True | Undefined \<Rightarrow> False)"

text \<open>
  The text \<^verbatim>\<open>join\<close> makes of an element: \<^verbatim>\<open>undefined\<close> gives the empty text, the object
  \<^verbatim>\<open>Object.prototype\<close> (what \<^verbatim>\<open>__proto__\<close> reads) prints as \<^verbatim>\<open>[object Object]\<close>, and a
  built-in function prints as Node prints it.
\<close>

definition propertyText :: "property \<Rightarrow> string" where
  "propertyText p = (case p of
       Text s \<Rightarrow> s
     | Undefined \<Rightarrow> []
     | Inherited k \<Rightarrow>
         if k = ''__proto__'' then ''[object Object]''
         else ''function '' @ (if k = ''constructor'' then ''Object'' else k)
              @ ''() { [native code] }'')"

definition getCurrencySymbol :: "string \<Rightarrow> property" where
  "getCurrencySymbol currencyCode =
     (let code = toLowerCase currencyCode in
      case find (\<lambda>curr. truthy (getProperty curr code)) CURRENCIES of
        Some currencyObj \<Rightarrow> getProperty currencyObj code
      | None \<Rightarrow> Text [])"

text \<open>
  \<^verbatim>\<open>[getCurrencySymbol(currency), parseFloat(value).toFixed(2)].filter(Boolean).join("")\<close>
\<close>

definition formatPrice :: "jsval \<Rightarrow> string \<Rightarrow> string" where
  "formatPrice v currency =
     concat (map propertyText
       (filter truthy [getCurrencySymbol currency, Text (toFixed2 (parseFloat v))]))"

subsection \<open>Cleaning and percentages\<close>

text \<open>\<^verbatim>\<open>value == null || value === "" || value === undefined\<close>\<close>

definition isEmpty :: "jsval \<Rightarrow> bool" where
  "isEmpty v \<longleftrightarrow> v = JNull \<or> v = JUndefined \<or> v = JStr []"

definition cleanPrice :: "jsval \<Rightarrow> jsval" where
  "cleanPrice p = (if isEmpty p then JNull else JNum (parseFloat p))"

text \<open>\<^verbatim>\<open>cleanNumber\<close> is applied to the text of a quantity cell only.\<close>

definition cleanNumber :: "string \<Rightarrow> jsval" where
  "cleanNumber num = (if isEmpty (JStr num) then JNull else JNum (parseInt10 num))"

definition calculatePercentage :: "jsval \<Rightarrow> jsval \<Rightarrow> error + jsnum" where
  "calculatePercentage v percent =
     (if isNaN v \<or> isNaN percent
      then Inl (Error ''Both 'value' and 'percent' must be valid numbers.'')
      else Inr (jdiv (jmul (toNumber v) (toNumber percent)) (Finite 100)))"

section \<open>validation.js\<close>

text \<open>\<^verbatim>\<open>amount !== null && !Number.isNaN(cleanPrice(amount)) && amount > 0\<close>\<close>

definition isValidAmount :: "jsval \<Rightarrow> bool" where
  "isValidAmount amount \<longleftrightarrow>
     amount \<noteq> JNull \<and> \<not> isNaN (cleanPrice amount) \<and> gtZero (toNumber amount)"

definition validatePrice :: "jsval \<Rightarrow> bool" where
  "validatePrice v = (let parsedValue = cleanPrice v in \<not> isNaN parsedValue)"

definition validateQty :: "string \<Rightarrow> bool" where
  "validateQty v = (let parsedValue = cleanNumber v in \<not> isNaN parsedValue \<and> isInteger parsedValue)"

subsection \<open>Rows\<close>

text \<open>
  A row of the table after \<^verbatim>\<open>validateAndFilterColumns\<close>: exactly the three expected
  columns. The cells of a parsed table are text; \<^verbatim>\<open>price\<close> is a value of any kind because
  \<^verbatim>\<open>calculateUnitTotals\<close> overwrites it with a number or \<^verbatim>\<open>null\<close>, while \<^verbatim>\<open>qty\<close> stays the
  text of its cell.
\<close>

record row =
  item :: string
  price :: jsval
  qty :: string

text \<open>The row \<^verbatim>\<open>calculateUnitTotals\<close> returns: the row it was given and seven more fields.\<close>

record pricedRow = row +
  total :: jsnum
  priceHtml :: string
  totalHtml :: string
  priceWithTax :: jsnum
  totalWithTax :: jsnum
  priceHtmlWithTax :: string
  totalHtmlWithTax :: string

text \<open>Running a function that may throw over a list, as \<^verbatim>\<open>map\<close> does: the first throw ends it.\<close>

fun mapE :: "('a \<Rightarrow> error + 'b) \<Rightarrow> 'a list \<Rightarrow> error + 'b list" where
  "mapE f [] = Inr []"
| "mapE f (x # xs) =
     (case f x of
        Inl e \<Rightarrow> Inl e
      | Inr y \<Rightarrow> (case mapE f xs of Inl e \<Rightarrow> Inl e | Inr ys \<Rightarrow> Inr (y # ys)))"

text \<open>
  A row as the table parser gives it, after \<^verbatim>\<open>slugifyObjectKeys\<close>: an object whose keys are
  the column names and whose values are the cells.
\<close>

definition missingColumn :: "string \<Rightarrow> error" where
  "missingColumn column = Error (''Missing expected column '' @ [CHR 0x27] @ column @ [CHR 0x27])"

text \<open>
  The callback of \<^verbatim>\<open>validateAndFilterColumns\<close>: the expected columns are looked up in the
  order \<^verbatim>\<open>item\<close>, \<^verbatim>\<open>price\<close>, \<^verbatim>\<open>qty\<close> with \<^verbatim>\<open>hasOwnProperty\<close>, and the first one missing throws.
\<close>

definition validatedRow :: "object \<Rightarrow> error + row" where
  "validatedRow obj =
     (case map_of obj ''item'' of
        None \<Rightarrow> Inl (missingColumn ''item'')
      | Some i \<Rightarrow>
          (case map_of obj ''price'' of
             None \<Rightarrow> Inl (missingColumn ''price'')
           | Some p \<Rightarrow>
               (case map_of obj ''qty'' of
                  None \<Rightarrow> Inl (missingColumn ''qty'')
                | Some q \<Rightarrow> Inr \<lparr>item = i, price = JStr p, qty = q\<rparr>)))"

definition validateAndFilterColumns :: "object list \<Rightarrow> error + row list" where
  "validateAndFilterColumns data = mapE validatedRow data"

subsection \<open>Validating the cells\<close>

text \<open>\<^verbatim>\<open>errors.join("\n")\<close>\<close>

fun joinLines :: "string list \<Rightarrow> string" where
  "joinLines [] = []"
| "joinLines [x] = x"
| "joinLines (x # y # ys) = x @ [CHR 0x0A] @ joinLines (y # ys)"

text \<open>
  The callback of \<^verbatim>\<open>flatMap\<close> in \<^verbatim>\<open>validateDataRows\<close>, for the row at a 0-based index. The
  test \<^verbatim>\<open>row.qty !== undefined\<close> holds for every text.
\<close>

definition rowErrors :: "nat \<Rightarrow> row \<Rightarrow> string list" where
  "rowErrors index r =
     (if price r \<noteq> JUndefined \<and> \<not> validatePrice (price r)
      then [''Object '' @ natToString (index + 1) @ '': Invalid Price''] else [])
     @ (if \<not> validateQty (qty r)
        then [''Object '' @ natToString (index + 1) @ '': Invalid Qty''] else [])"

text \<open>\<^verbatim>\<open>data.flatMap((row, index) => ...)\<close>, from a first index on.\<close>

fun flatMapIndexed :: "(nat \<Rightarrow> 'a \<Rightarrow> 'b list) \<Rightarrow> nat \<Rightarrow> 'a list \<Rightarrow> 'b list" where
  "flatMapIndexed f index [] = []"
| "flatMapIndexed f index (x # xs) = f index x @ flatMapIndexed f (Suc index) xs"

definition validateDataRows :: "row list \<Rightarrow> error + unit" where
  "validateDataRows data =
     (let errors = flatMapIndexed rowErrors 0 data in
      if length errors > 0 then Inl (Error (joinLines errors)) else Inr ())"

subsection \<open>Unit totals\<close>

text \<open>
  The callback of \<^verbatim>\<open>map\<close> in \<^verbatim>\<open>calculateUnitTotals\<close>. \<^verbatim>\<open>qty\<close> is the text of the cell and is
  coerced by \<^verbatim>\<open>*\<close>; \<^verbatim>\<open>priceWithoutTax\<close> is a number or \<^verbatim>\<open>null\<close>, never text, so that \<^verbatim>\<open>+\<close>
  adds numbers.
\<close>

definition taxRate :: "jsval \<Rightarrow> jsval" where
  "taxRate serviceTax = (if isValidAmount serviceTax then cleanPrice serviceTax else JNum (Finite 0))"

definition unitTotals :: "string \<Rightarrow> jsval \<Rightarrow> row \<Rightarrow> error + pricedRow" where
  "unitTotals currency serviceTax r =
     (let formatAmount = (\<lambda>amount. formatPrice amount currency);
          priceWithoutTax = cleanPrice (price r);
          totalWithoutTax = jmul (toNumber (JStr (qty r))) (toNumber priceWithoutTax)
      in case calculatePercentage priceWithoutTax (taxRate serviceTax) of
           Inl e \<Rightarrow> Inl e
         | Inr percentage \<Rightarrow>
             (let priceWithTax' = jadd (toNumber priceWithoutTax) percentage;
                  totalWithTax' = jmul (toNumber (JStr (qty r))) priceWithTax'
              in Inr (row.extend (r\<lparr>price := priceWithoutTax\<rparr>)
                   (pricedRow.fields totalWithoutTax
                      (formatAmount (price r))
                      (formatAmount (JNum totalWithoutTax))
                      priceWithTax'
                      totalWithTax'
                      (formatAmount (JNum priceWithTax'))
                      (formatAmount (JNum totalWithTax'))))))"

text \<open>The parameter \<^verbatim>\<open>serviceTax = 1\<close>: an argument that is \<^verbatim>\<open>undefined\<close> is replaced by \<open>1\<close>.\<close>

definition calculateUnitTotals :: "row list \<Rightarrow> string \<Rightarrow> jsval \<Rightarrow> error + pricedRow list" where
  "calculateUnitTotals data currency serviceTax =
     mapE (unitTotals currency (if serviceTax = JUndefined then JNum (Finite 1) else serviceTax)) data"

text \<open>
  The row \<^verbatim>\<open>calculateUnitTotals\<close> returns for a row when \<^verbatim>\<open>calculatePercentage\<close> does not
  throw, written out field by field.
\<close>

definition pricedRowOf :: "string \<Rightarrow> jsval \<Rightarrow> row \<Rightarrow> pricedRow" where
  "pricedRowOf cur serviceTax r =
     (let p = toNumber (cleanPrice (price r));
          q = toNumber (JStr (qty r));
          pt = jadd p (jdiv (jmul p (toNumber (taxRate serviceTax))) (Finite 100))
      in row.extend (r\<lparr>price := cleanPrice (price r)\<rparr>)
           (pricedRow.fields (jmul q p) (formatPrice (price r) cur)
              (formatPrice (JNum (jmul q p)) cur) pt (jmul q pt)
              (formatPrice (JNum pt) cur) (formatPrice (JNum (jmul q pt)) cur)))"

subsection \<open>Invoice totals\<close>

text \<open>What \<^verbatim>\<open>extractInvoiceData\<close> hands to \<^verbatim>\<open>calculateInvoiceTotals\<close>.\<close>

record invoiceData =
  tables :: "pricedRow list"
  tax :: jsval
  otherFee :: jsval
  discount :: jsval
  currency :: string

record invoiceTotals =
  subtotal :: jsnum
  tax :: jsval
  taxAmt :: jsnum
  discount :: jsval
  otherFee :: jsval
  otherFeeAmt :: jsnum
  total :: jsnum
  subtotalHtml :: string
  taxAmtHtml :: string
  otherFeeAmtHtml :: string
  discountHtml :: string
  totalHtml :: string

text \<open>The helper \<^verbatim>\<open>calculateAmount\<close> of \<^verbatim>\<open>calculateInvoiceTotals\<close>, with its default \<open>0\<close>.\<close>

definition calculateAmount :: "jsval \<Rightarrow> jsval" where
  "calculateAmount v = (if isValidAmount v then cleanPrice v else JNum (Finite 0))"

definition calculateInvoiceTotals :: "invoiceData \<Rightarrow> error + invoiceTotals" where
  "calculateInvoiceTotals data =
     (let tax' = calculateAmount (invoiceData.tax data);
          otherFee' = calculateAmount (invoiceData.otherFee data);
          discount' = calculateAmount (invoiceData.discount data);
          subtotal' = foldl (\<lambda>acc r. jadd acc (totalWithTax r)) (Finite 0) (tables data)
      in case calculatePercentage (JNum subtotal') tax' of
           Inl e \<Rightarrow> Inl e
         | Inr taxAmt' \<Rightarrow>
             (case calculatePercentage (JNum subtotal') otherFee' of
                Inl e \<Rightarrow> Inl e
              | Inr otherFeeAmt' \<Rightarrow>
                  (let total' = jsub (jadd (jadd subtotal' taxAmt') otherFeeAmt') (toNumber discount');
                       formatAmount = (\<lambda>amount. formatPrice amount (currency data))
                   in Inr \<lparr>subtotal = subtotal',
                            invoiceTotals.tax = tax',
                            taxAmt = taxAmt',
                            invoiceTotals.discount = discount',
                            invoiceTotals.otherFee = otherFee',
                            otherFeeAmt = otherFeeAmt',
                            invoiceTotals.total = total',
                            subtotalHtml = formatAmount (JNum subtotal'),
                            taxAmtHtml = formatAmount (JNum taxAmt'),
                            otherFeeAmtHtml = formatAmount (JNum otherFeeAmt'),
                            discountHtml = formatAmount discount',
                            invoiceTotals.totalHtml = formatAmount (JNum (mathRound total'))\<rparr>)))"

section \<open>replacement.js\<close>

subsection \<open>Placeholders\<close>

text \<open>
  The regular expression \<^verbatim>\<open>/{{(.*?)}}/g\<close>. The dot matches any character but a line
  terminator: LF, CR, and U+2028 and U+2029 (three bytes each in UTF-8).
\<close>

definition lineTerminatorAt :: "string \<Rightarrow> bool" where
  "lineTerminatorAt s \<longleftrightarrow>
     startsWith [CHR 0x0A] s \<or> startsWith [CHR 0x0D] s
     \<or> startsWith [CHR 0xE2, CHR 0x80, CHR 0xA8] s \<or> startsWith [CHR 0xE2, CHR 0x80, CHR 0xA9] s"

text \<open>
  The part \<^verbatim>\<open>(.*?)}}\<close> of the expression, tried on the text after \<^verbatim>\<open>{{\<close>: the group takes as
  few characters as possible, so it ends at the first \<^verbatim>\<open>}}\<close>, and there is no match if a
  line terminator or the end of the text comes first. The result is the group and the text
  after the match.
\<close>

fun findClose :: "string \<Rightarrow> (string \<times> string) option" where
  "findClose [] = None"
| "findClose (c # cs) =
     (if startsWith ''}}'' (c # cs) then Some ([], drop 2 (c # cs))
      else if lineTerminatorAt (c # cs) then None
      else (case findClose cs of
              None \<Rightarrow> None
            | Some (placeholder, rest) \<Rightarrow> Some (c # placeholder, rest)))"

text \<open>
  What \<^verbatim>\<open>replace\<close> with a global expression makes of a text: the matches, each with its
  group, and the characters between them that belong to no match.
\<close>

datatype segment = Unmatched char | Match string string

function segments :: "string \<Rightarrow> segment list" where
  "segments [] = []"
| "segments (c # cs) =
     (if startsWith ''{{'' (c # cs) then
        (case findClose (drop 2 (c # cs)) of
           Some (placeholder, rest) \<Rightarrow> Match (''{{'' @ placeholder @ ''}}'') placeholder # segments rest
         | None \<Rightarrow> Unmatched c # segments cs)
      else Unmatched c # segments cs)"
  by pat_completeness auto
termination
proof (relation "measure length")
  have shorter: "length rest < length s"
    if "findClose s = Some (placeholder, rest)" for s placeholder rest
    using that
  proof (induction s arbitrary: placeholder)
    case Nil
    then show ?case by simp
  next
    case (Cons c cs)
    show ?case
    proof (cases "startsWith ''}}'' (c # cs)")
      case True
      with Cons.prems show ?thesis by auto
    next
      case False
      with Cons.prems obtain p where "findClose cs = Some (p, rest)"
        by (auto split: if_splits option.splits)
      from Cons.IH [OF this] show ?thesis by simp
    qed
  qed
  show "wf (measure length)" by simp
  fix c cs x2 placeholder rest
  assume "findClose (drop 2 (c # cs)) = Some x2" and "(placeholder, rest) = x2"
  then have "length rest < length (drop 2 (c # cs))"
    using shorter by metis
  then show "(rest, c # cs) \<in> measure length" by simp
qed simp_all

text \<open>
  The data object of \<^verbatim>\<open>replacePlaceholders\<close>: its own properties, with text values. The
  callback returns \<^verbatim>\<open>data[placeholder]\<close> if \<^verbatim>\<open>hasOwnProperty\<close> finds the group, and the
  match itself if not.
\<close>

definition replacePlaceholders :: "string \<Rightarrow> (string \<rightharpoonup> string) \<Rightarrow> string" where
  "replacePlaceholders html data =
     concat (map (\<lambda>seg. case seg of
                     Unmatched c \<Rightarrow> [c]
                   | Match m placeholder \<Rightarrow>
                       (case data placeholder of Some v \<Rightarrow> v | None \<Rightarrow> m))
       (segments html))"

subsection \<open>The table\<close>

text \<open>
  \<^verbatim>\<open>slugifyObjectKeys\<close>: every key is replaced by its slug, in the order of the keys, and a
  later key overwrites an earlier one with the same slug. The slug function (the packages
  \<^verbatim>\<open>slugify\<close> and \<^verbatim>\<open>latinize\<close>) is a parameter.
\<close>

definition assign :: "string \<Rightarrow> string \<Rightarrow> object \<Rightarrow> object" where
  "assign key v obj = filter (\<lambda>kv. fst kv \<noteq> key) obj @ [(key, v)]"

definition slugifyObjectKeys :: "(string \<Rightarrow> string) \<Rightarrow> object \<Rightarrow> object" where
  "slugifyObjectKeys slug obj = foldl (\<lambda>slugifiedObj (key, v). assign (slug key) v slugifiedObj) [] obj"

text \<open>
  \<^verbatim>\<open>parseAndValidateTable\<close>, from the result of the table parser on: \<open>None\<close> stands for a
  result that is missing or has no \<^verbatim>\<open>results\<close>, \<open>Some\<close> holds the parsed tables, each a
  list of rows.
\<close>

definition parseAndValidateTable ::
  "(string \<Rightarrow> string) \<Rightarrow> object list list option \<Rightarrow> error + row list" where
  "parseAndValidateTable slug jsonTables =
     (let tables' = (case jsonTables of Some results \<Rightarrow> results | None \<Rightarrow> []) in
      case tables' of
        [] \<Rightarrow> Inl (Error ''Please provide an estimate table in the markdown content.'')
      | first # _ \<Rightarrow>
          (let table = map (slugifyObjectKeys slug) first in
           case validateAndFilterColumns table of
             Inl e \<Rightarrow> Inl e
           | Inr filteredTable \<Rightarrow>
               (case validateDataRows filteredTable of
                  Inl e \<Rightarrow> Inl e
                | Inr _ \<Rightarrow> Inr filteredTable)))"

section \<open>The words of the specification\<close>

text \<open>
  The messages the specification asks of row validation: over all rows, in order, one
  message for each cell that is not accepted, with the 1-based index of its row, the price
  before the quantity.
\<close>

definition violations :: "row list \<Rightarrow> string list" where
  "violations data =
     concat (map (\<lambda>i.
         (if validatePrice (price (data ! i)) then []
          else [''Object '' @ natToString (i + 1) @ '': Invalid Price''])
         @ (if validateQty (qty (data ! i)) then []
            else [''Object '' @ natToString (i + 1) @ '': Invalid Qty'']))
       [0..<length data])"

text \<open>
  The tax rate of \<^verbatim>\<open>calculateUnitTotals\<close> in words: \<open>1\<close> for an omitted service tax, the
  service tax itself if it is a number greater than 0, the number a text stands for if
  \<^verbatim>\<open>parseFloat\<close> reads one and the text, coerced, is greater than 0, and \<open>0\<close> otherwise.
\<close>

definition resolvedTaxRate :: "jsval \<Rightarrow> jsnum" where
  "resolvedTaxRate serviceTax = (case serviceTax of
       JUndefined \<Rightarrow> Finite 1
     | JNull \<Rightarrow> Finite 0
     | JNum x \<Rightarrow> if gtZero x then x else Finite 0
     | JStr s \<Rightarrow> if parseFloatText s \<noteq> NaN \<and> gtZero (stringToNumber s) then parseFloatText s
                 else Finite 0)"





section \<open>Evaluating the printing of numbers\<close>

text \<open>
  The digits of a number are computed from the innermost quotient outwards, so that a
  concrete amount prints in time linear in its length.
\<close>

lemma natToString_digit: "n < 10 \<Longrightarrow> natToString n = [digitChar n]"
  by (simp add: natToString.simps)

lemma natToString_more:
  "10 \<le> n \<Longrightarrow> natToString n = natToString (n div 10) @ [digitChar (n mod 10)]"
  by (subst natToString.simps) simp

lemma floor_rat_numeral: "\<lfloor>numeral a / numeral b :: rat\<rfloor> = numeral a div numeral b"
  using floor_divide_of_int_eq [of "numeral a" "numeral b", where ?'a = rat] by simp

lemmas format_simps =
  toFixed2_def fixedDigits_def natToString_digit natToString_more digitChar_def Let_def
  floor_rat_numeral

lemma getCurrencySymbol_examples:
  "getCurrencySymbol ''gbp'' = Text [CHR 0xC2, CHR 0xA3]"
  "getCurrencySymbol ''GBP'' = Text [CHR 0xC2, CHR 0xA3]"
  "getCurrencySymbol ''xyz'' = Text []"
  "getCurrencySymbol ''__proto__'' = Inherited ''__proto__''"
  by code_simp+

section \<open>Percentages and amounts\<close>

lemma taxRate_not_NaN: "\<not> isNaN (taxRate v)"
  by (simp add: taxRate_def isValidAmount_def isNaN_def)

lemma calculateAmount_not_NaN: "\<not> isNaN (calculateAmount v)"
  by (simp add: calculateAmount_def isValidAmount_def isNaN_def)

lemma calculateAmount_number:
  "calculateAmount (JNum x) = JNum (if gtZero x then x else Finite 0)"
  by (cases x) (simp_all add: calculateAmount_def isValidAmount_def cleanPrice_def isEmpty_def
      isNaN_def parseFloat_def toNumber_def gtZero_def signOf_def)

lemma calculatePercentage_amount:
  "calculatePercentage (JNum s) (calculateAmount v) =
     (if s = NaN then Inl (Error ''Both 'value' and 'percent' must be valid numbers.'')
      else Inr (jdiv (jmul s (toNumber (calculateAmount v))) (Finite 100)))"
  using calculateAmount_not_NaN [of v]
  by (simp add: calculatePercentage_def isNaN_def toNumber_def)

text \<open>
  C5. \<^verbatim>\<open>calculatePercentage(value, percent)\<close> throws its error if one of the arguments is
  the number NaN, and returns \<^verbatim>\<open>value * percent / 100\<close> otherwise, the arguments coerced to
  numbers as \<^verbatim>\<open>*\<close> does; on finite numbers that is the exact quotient.
\<close>

theorem calculatePercentage_spec:
  "calculatePercentage v percent =
     (if v = JNum NaN \<or> percent = JNum NaN
      then Inl (Error ''Both 'value' and 'percent' must be valid numbers.'')
      else Inr (jdiv (jmul (toNumber v) (toNumber percent)) (Finite 100)))
   \<and> calculatePercentage (JNum (Finite a)) (JNum (Finite b)) = Inr (Finite (a * b / 100))"
  by (simp add: calculatePercentage_def isNaN_def toNumber_def)

theorem calculatePercentage_spec_witness:
  "calculatePercentage (JNum (Finite 242)) (JNum (Finite 15)) = Inr (Finite (363 / 10))
   \<and> calculatePercentage (JNum NaN) (JNum (Finite 15))
       = Inl (Error ''Both 'value' and 'percent' must be valid numbers.'')
   \<and> calculatePercentage JNull (JNum (Finite 15)) = Inr (Finite 0)"
  using calculatePercentage_spec [of "JNum (Finite 242)" "JNum (Finite 15)" 242 15]
    calculatePercentage_spec [of "JNum NaN" "JNum (Finite 15)"]
    calculatePercentage_spec [of JNull "JNum (Finite 15)"]
  by (simp add: toNumber_def)

section \<open>Unit totals\<close>

lemma mapE_if:
  assumes "\<And>y. f y = (if P y then Inr (g y) else Inl e)"
  shows "mapE f xs = (if \<forall>y \<in> set xs. P y then Inr (map g xs) else Inl e)"
  by (induction xs) (simp_all add: assms)

lemma unitTotals_if:
  "unitTotals cur serviceTax r =
     (if validatePrice (price r) then Inr (pricedRowOf cur serviceTax r)
      else Inl (Error ''Both 'value' and 'percent' must be valid numbers.''))"
  using taxRate_not_NaN [of serviceTax]
  by (simp add: unitTotals_def pricedRowOf_def validatePrice_def calculatePercentage_def Let_def)

lemma calculateUnitTotals_if:
  "calculateUnitTotals data cur serviceTax =
     (if \<forall>r \<in> set data. validatePrice (price r)
      then Inr (map (pricedRowOf cur (if serviceTax = JUndefined then JNum (Finite 1) else serviceTax)) data)
      else Inl (Error ''Both 'value' and 'percent' must be valid numbers.''))"
  unfolding calculateUnitTotals_def
  by (rule mapE_if) (rule unitTotals_if)

lemma pricedRowOf_fields:
  "item (pricedRowOf c s r) = item r" "qty (pricedRowOf c s r) = qty r"
  "price (pricedRowOf c s r) = cleanPrice (price r)"
  "priceWithTax (pricedRowOf c s r) =
     jadd (toNumber (cleanPrice (price r)))
       (jdiv (jmul (toNumber (cleanPrice (price r))) (toNumber (taxRate s))) (Finite 100))"
  "totalWithTax (pricedRowOf c s r) = jmul (toNumber (JStr (qty r))) (priceWithTax (pricedRowOf c s r))"
  "pricedRow.total (pricedRowOf c s r) = jmul (toNumber (JStr (qty r))) (toNumber (cleanPrice (price r)))"
  by (simp_all add: pricedRowOf_def Let_def row.extend_def pricedRow.fields_def)

lemma taxRate_resolved:
  "toNumber (taxRate (if serviceTax = JUndefined then JNum (Finite 1) else serviceTax))
     = resolvedTaxRate serviceTax"
proof (cases serviceTax)
  case JUndefined
  then show ?thesis
    by (simp add: resolvedTaxRate_def taxRate_def isValidAmount_def cleanPrice_def isEmpty_def
        isNaN_def parseFloat_def toNumber_def gtZero_def signOf_def)
next
  case JNull
  then show ?thesis
    by (simp add: resolvedTaxRate_def taxRate_def isValidAmount_def toNumber_def)
next
  case (JStr s)
  show ?thesis
  proof (cases "s = []")
    case True
    have "stringToNumber [] = Finite 0"
      by (simp add: stringToNumber_def skipWhiteSpace.simps)
    with True JStr show ?thesis
      by (simp add: resolvedTaxRate_def taxRate_def isValidAmount_def cleanPrice_def isEmpty_def
          isNaN_def toNumber_def gtZero_def signOf_def)
  next
    case False
    with JStr show ?thesis
      by (simp add: resolvedTaxRate_def taxRate_def isValidAmount_def cleanPrice_def isEmpty_def
          isNaN_def parseFloat_def toNumber_def)
  qed
next
  case (JNum x)
  then show ?thesis
    by (cases x) (simp_all add: resolvedTaxRate_def taxRate_def isValidAmount_def cleanPrice_def
        isEmpty_def isNaN_def parseFloat_def toNumber_def gtZero_def signOf_def)
qed

text \<open>
  C2, as amended. For rows whose price is accepted by \<^verbatim>\<open>validatePrice\<close>, \<^verbatim>\<open>calculateUnitTotals\<close>
  returns one row for each row, with \<^verbatim>\<open>price\<close> the cleaned price,
  \<^verbatim>\<open>priceWithTax = price + price * taxRate / 100\<close> and \<^verbatim>\<open>totalWithTax = qty * priceWithTax\<close>,
  where \<^verbatim>\<open>qty\<close> is the text of the cell coerced to a number and the tax rate is the resolved
  one: the service tax if it is a number greater than 0, \<open>+\<infinity>\<close> included, \<open>1\<close> if the
  argument is omitted, and \<open>0\<close> for every other number. So
  \<^verbatim>\<open>totalWithTax = qty * (price + price * serviceTax / 100)\<close> whenever the service tax is a
  number greater than 0.
\<close>

theorem calculateUnitTotals_amounts:
  assumes "\<forall>r \<in> set data. validatePrice (price r)"
  shows "\<exists>out. calculateUnitTotals data cur serviceTax = Inr out
     \<and> length out = length data
     \<and> (\<forall>i < length data.
          let p = toNumber (cleanPrice (price (data ! i)));
              q = toNumber (JStr (qty (data ! i)))
          in price (out ! i) = cleanPrice (price (data ! i))
             \<and> priceWithTax (out ! i) = jadd p (jdiv (jmul p (resolvedTaxRate serviceTax)) (Finite 100))
             \<and> totalWithTax (out ! i) = jmul q (priceWithTax (out ! i))
             \<and> (\<forall>x. serviceTax = JNum x \<and> gtZero x \<longrightarrow>
                   totalWithTax (out ! i) = jmul q (jadd p (jdiv (jmul p x) (Finite 100)))))"
proof -
  let ?st = "if serviceTax = JUndefined then JNum (Finite 1) else serviceTax"
  have rate: "toNumber (taxRate (JNum x)) = x" if "gtZero x" for x
    using that taxRate_resolved [of "JNum x"] by (simp add: resolvedTaxRate_def)
  from assms have "calculateUnitTotals data cur serviceTax = Inr (map (pricedRowOf cur ?st) data)"
    by (simp add: calculateUnitTotals_if)
  moreover have "length (map (pricedRowOf cur ?st) data) = length data"
    by simp
  moreover have "\<forall>i < length data.
          let p = toNumber (cleanPrice (price (data ! i)));
              q = toNumber (JStr (qty (data ! i)))
          in price (map (pricedRowOf cur ?st) data ! i) = cleanPrice (price (data ! i))
             \<and> priceWithTax (map (pricedRowOf cur ?st) data ! i)
                 = jadd p (jdiv (jmul p (resolvedTaxRate serviceTax)) (Finite 100))
             \<and> totalWithTax (map (pricedRowOf cur ?st) data ! i)
                 = jmul q (priceWithTax (map (pricedRowOf cur ?st) data ! i))
             \<and> (\<forall>x. serviceTax = JNum x \<and> gtZero x \<longrightarrow>
                   totalWithTax (map (pricedRowOf cur ?st) data ! i)
                     = jmul q (jadd p (jdiv (jmul p x) (Finite 100))))"
    using rate by (simp add: Let_def pricedRowOf_fields taxRate_resolved)
  ultimately show ?thesis by blast
qed

theorem calculateUnitTotals_amounts_witness:
  "\<exists>out. calculateUnitTotals [\<lparr>item = ''A'', price = JStr ''10.00'', qty = ''2''\<rparr>] ''gbp'' (JNum (Finite 20)) = Inr out
      \<and> length out = 1
      \<and> price (out ! 0) = JNum (Finite 10)
      \<and> priceWithTax (out ! 0) = Finite 12
      \<and> totalWithTax (out ! 0) = Finite 24"
proof -
  let ?rows = "[\<lparr>item = ''A'', price = JStr ''10.00'', qty = ''2''\<rparr>]"
  have v: "validatePrice (JStr ''10.00'')" "cleanPrice (JStr ''10.00'') = JNum (Finite 10)"
    "toNumber (JStr ''2'') = Finite 2" "resolvedTaxRate (JNum (Finite 20)) = Finite 20"
    by code_simp+
  from v(1) calculateUnitTotals_amounts [of ?rows "''gbp''" "JNum (Finite 20)"]
  obtain out where out: "calculateUnitTotals ?rows ''gbp'' (JNum (Finite 20)) = Inr out"
    "length out = 1" "price (out ! 0) = cleanPrice (JStr ''10.00'')"
    "priceWithTax (out ! 0)
       = jadd (toNumber (cleanPrice (JStr ''10.00'')))
           (jdiv (jmul (toNumber (cleanPrice (JStr ''10.00''))) (resolvedTaxRate (JNum (Finite 20))))
              (Finite 100))"
    "totalWithTax (out ! 0) = jmul (toNumber (JStr ''2'')) (priceWithTax (out ! 0))"
    by (auto simp: Let_def)
  from out(4) have p: "priceWithTax (out ! 0) = Finite 12"
    by (simp add: v toNumber_def)
  from out(5) have "totalWithTax (out ! 0) = Finite 24"
    by (simp add: v p)
  with out(1,2,3) p show ?thesis
    by (simp add: v)
qed

theorem calculateUnitTotals_amounts_counterexample:
  "calculateUnitTotals [\<lparr>item = ''A'', price = JStr ''10'', qty = ''2''\<rparr>] ''usd'' (JNum PosInfinity)
     = Inr [pricedRowOf ''usd'' (JNum PosInfinity) \<lparr>item = ''A'', price = JStr ''10'', qty = ''2''\<rparr>]
   \<and> priceWithTax (pricedRowOf ''usd'' (JNum PosInfinity) \<lparr>item = ''A'', price = JStr ''10'', qty = ''2''\<rparr>)
       = PosInfinity
   \<and> jadd (Finite 10) (jdiv (jmul (Finite 10) (Finite 0)) (Finite 100)) = Finite 10
   \<and> calculateUnitTotals [\<lparr>item = ''A'', price = JStr ''10'', qty = ''2''\<rparr>] ''usd'' (JNum (Finite (- 5)))
     = Inr [pricedRowOf ''usd'' (JNum (Finite (- 5))) \<lparr>item = ''A'', price = JStr ''10'', qty = ''2''\<rparr>]
   \<and> totalWithTax (pricedRowOf ''usd'' (JNum (Finite (- 5))) \<lparr>item = ''A'', price = JStr ''10'', qty = ''2''\<rparr>)
       = Finite 20
   \<and> jmul (Finite 2) (jadd (Finite 10) (jdiv (jmul (Finite 10) (Finite (- 5))) (Finite 100))) = Finite 19"
proof -
  have v: "validatePrice (JStr ''10'')" "cleanPrice (JStr ''10'') = JNum (Finite 10)"
    "stringToNumber ''2'' = Finite 2"
    by code_simp+
  have r: "taxRate (JNum PosInfinity) = JNum PosInfinity" "taxRate (JNum (Finite (- 5))) = JNum (Finite 0)"
    by (simp_all add: taxRate_def isValidAmount_def cleanPrice_def isEmpty_def isNaN_def
        parseFloat_def toNumber_def gtZero_def signOf_def)
  show ?thesis
    by (simp add: calculateUnitTotals_if pricedRowOf_fields v r toNumber_def infinityOf_def signOf_def)
qed

text \<open>
  C10, as amended. If every price is accepted by \<^verbatim>\<open>validatePrice\<close>, \<^verbatim>\<open>calculateUnitTotals\<close>
  returns a list as long as its input, in the same order, and the \<^verbatim>\<open>item\<close> and \<^verbatim>\<open>qty\<close> of
  every row are those of the input row; if some price is not accepted, it throws the error
  of \<^verbatim>\<open>calculatePercentage\<close>.
\<close>

theorem calculateUnitTotals_frame:
  "if \<forall>r \<in> set data. validatePrice (price r)
   then \<exists>out. calculateUnitTotals data cur serviceTax = Inr out
          \<and> length out = length data
          \<and> (\<forall>i < length data. item (out ! i) = item (data ! i) \<and> qty (out ! i) = qty (data ! i))
   else calculateUnitTotals data cur serviceTax =
          Inl (Error ''Both 'value' and 'percent' must be valid numbers.'')"
  by (simp add: calculateUnitTotals_if pricedRowOf_fields)

theorem calculateUnitTotals_frame_witness:
  "\<exists>out. calculateUnitTotals [\<lparr>item = ''A'', price = JStr ''10'', qty = ''2''\<rparr>] ''usd'' (JNum (Finite 20)) = Inr out
      \<and> length out = 1 \<and> item (out ! 0) = ''A'' \<and> qty (out ! 0) = ''2''"
proof -
  have "validatePrice (JStr ''10'')"
    by code_simp
  then show ?thesis
    using calculateUnitTotals_frame [of "[\<lparr>item = ''A'', price = JStr ''10'', qty = ''2''\<rparr>]" "''usd''" "JNum (Finite 20)"]
    by simp
qed

theorem calculateUnitTotals_frame_counterexample:
  "calculateUnitTotals [\<lparr>item = ''A'', price = JStr ''ten'', qty = ''2''\<rparr>] ''usd'' (JNum (Finite 20))
     = Inl (Error ''Both 'value' and 'percent' must be valid numbers.'')"
  by code_simp

section \<open>Row validation\<close>

lemma validatePrice_undefined: "validatePrice JUndefined"
  by (simp add: validatePrice_def cleanPrice_def isEmpty_def isNaN_def)

lemma rowErrors_eq:
  "rowErrors i r =
     (if validatePrice (price r) then [] else [''Object '' @ natToString (i + 1) @ '': Invalid Price''])
     @ (if validateQty (qty r) then [] else [''Object '' @ natToString (i + 1) @ '': Invalid Qty''])"
  using validatePrice_undefined by (auto simp: rowErrors_def)

lemma flatMapIndexed_eq:
  "flatMapIndexed f k xs = concat (map (\<lambda>i. f (k + i) (xs ! i)) [0..<length xs])"
proof (induction xs arbitrary: k)
  case Nil
  then show ?case by simp
next
  case (Cons x xs)
  have "[0..<length (x # xs)] = 0 # map Suc [0..<length xs]"
    by (simp add: upt_conv_Cons map_Suc_upt del: upt_Suc)
  then show ?case
    by (simp add: Cons.IH comp_def del: upt_Suc)
qed

lemma violations_eq: "violations data = flatMapIndexed rowErrors 0 data"
  by (simp add: violations_def flatMapIndexed_eq rowErrors_eq)

lemma flatMapIndexed_rowErrors_Nil:
  "flatMapIndexed rowErrors k data = [] \<longleftrightarrow>
     (\<forall>r \<in> set data. validatePrice (price r) \<and> validateQty (qty r))"
  by (induction data arbitrary: k) (auto simp: rowErrors_eq)

lemma flatMapIndexed_rowErrors_length:
  "length (flatMapIndexed rowErrors k data) =
     length (filter (\<lambda>r. \<not> validatePrice (price r)) data)
     + length (filter (\<lambda>r. \<not> validateQty (qty r)) data)"
  by (induction data arbitrary: k) (simp_all add: rowErrors_eq)

lemma validateDataRows_if:
  "validateDataRows data =
     (if \<forall>r \<in> set data. validatePrice (price r) \<and> validateQty (qty r) then Inr ()
      else Inl (Error (joinLines (flatMapIndexed rowErrors 0 data))))"
  using flatMapIndexed_rowErrors_Nil [of 0 data]
  by (simp add: validateDataRows_def Let_def)

text \<open>
  C4. \<^verbatim>\<open>validateDataRows\<close> returns without an error exactly if every price and quantity cell
  is accepted. Otherwise it throws one error whose message is the lines of \<open>violations\<close>,
  joined by line feeds: for all rows, one message for each cell that is not accepted, with the
  1-based index of the row.
\<close>

theorem validateDataRows_reports:
  "validateDataRows data =
     (if \<forall>r \<in> set data. validatePrice (price r) \<and> validateQty (qty r) then Inr ()
      else Inl (Error (joinLines (violations data))))
   \<and> length (violations data) =
       length (filter (\<lambda>r. \<not> validatePrice (price r)) data)
       + length (filter (\<lambda>r. \<not> validateQty (qty r)) data)"
  by (simp add: validateDataRows_if violations_eq flatMapIndexed_rowErrors_length)

theorem validateDataRows_reports_witness:
  "validateDataRows [\<lparr>item = ''A'', price = JStr ''ten'', qty = ''2''\<rparr>]
     = Inl (Error ''Object 1: Invalid Price'')
   \<and> validateDataRows [\<lparr>item = ''A'', price = JStr ''10'', qty = ''2''\<rparr>] = Inr ()
   \<and> validateDataRows [\<lparr>item = ''A'', price = JStr ''ten'', qty = ''2''\<rparr>,
        \<lparr>item = ''B'', price = JStr ''1.5'', qty = ''3''\<rparr>,
        \<lparr>item = ''C'', price = JStr ''x'', qty = ''y''\<rparr>]
     = Inl (Error (''Object 1: Invalid Price'' @ [CHR 0x0A] @ ''Object 3: Invalid Price''
                   @ [CHR 0x0A] @ ''Object 3: Invalid Qty''))"
proof -
  have v: "\<not> validatePrice (JStr ''ten'')" "validateQty ''2''" "validatePrice (JStr ''10'')"
    "validatePrice (JStr ''1.5'')" "validateQty ''3''" "\<not> validatePrice (JStr ''x'')" "\<not> validateQty ''y''"
    by code_simp+
  have n: "natToString (Suc 0) = ''1''" "natToString (Suc (Suc 0)) = ''2''"
    "natToString (Suc (Suc (Suc 0))) = ''3''"
    by code_simp+
  have u: "[0..<3] = [0, 1, 2]"
    by code_simp
  show ?thesis
    using validateDataRows_reports [of "[\<lparr>item = ''A'', price = JStr ''ten'', qty = ''2''\<rparr>]"]
      validateDataRows_reports [of "[\<lparr>item = ''A'', price = JStr ''10'', qty = ''2''\<rparr>]"]
      validateDataRows_reports [of "[\<lparr>item = ''A'', price = JStr ''ten'', qty = ''2''\<rparr>,
        \<lparr>item = ''B'', price = JStr ''1.5'', qty = ''3''\<rparr>,
        \<lparr>item = ''C'', price = JStr ''x'', qty = ''y''\<rparr>]"]
    by (simp add: violations_def v n u)
qed

lemma skipWhiteSpace_Nil: "skipWhiteSpace [] = []"
  by (simp add: skipWhiteSpace.simps)

lemma parseInt10_Nil: "parseInt10 [] = NaN"
  by (simp add: parseInt10_def skipWhiteSpace_Nil takeSign_def)

lemma validatePrice_text:
  "p \<noteq> [] \<Longrightarrow> validatePrice (JStr p) \<longleftrightarrow> parseFloatText p \<noteq> NaN"
  by (simp add: validatePrice_def cleanPrice_def isEmpty_def isNaN_def parseFloat_def)

lemma validateQty_integer:
  "validateQty q \<longleftrightarrow> (\<exists>n::int. parseInt10 q = Finite (of_int n))"
proof
  assume "validateQty q"
  then have "isInteger (JNum (parseInt10 q))"
    by (simp add: validateQty_def cleanNumber_def isInteger_def Let_def split: if_splits)
  then obtain a where a: "parseInt10 q = Finite a" "of_int \<lfloor>a\<rfloor> = a"
    by (cases "parseInt10 q") (simp_all add: isInteger_def)
  from a(2) have "Finite a = Finite (of_int \<lfloor>a\<rfloor>)"
    by (simp only:)
  with a(1) show "\<exists>n::int. parseInt10 q = Finite (of_int n)"
    by (metis (no_types))
next
  assume "\<exists>n::int. parseInt10 q = Finite (of_int n)"
  then obtain n :: int where n: "parseInt10 q = Finite (of_int n)" ..
  with parseInt10_Nil have "q \<noteq> []" by auto
  with n show "validateQty q"
    by (simp add: validateQty_def cleanNumber_def isEmpty_def isInteger_def isNaN_def)
qed

text \<open>
  C3, as amended. A price cell that is not empty is accepted exactly if \<^verbatim>\<open>parseFloat\<close> of it is
  not NaN, whether finite or infinite; a quantity cell is accepted exactly if
  \<^verbatim>\<open>parseInt\<close> of it is a finite integer; and a list with a row of which a cell is not accepted
  is reported with an error.
\<close>

theorem validation_accepts:
  "(p \<noteq> [] \<longrightarrow> (validatePrice (JStr p) \<longleftrightarrow> parseFloatText p \<noteq> NaN))
   \<and> (validateQty q \<longleftrightarrow> (\<exists>n::int. parseInt10 q = Finite (of_int n)))
   \<and> (r \<in> set data \<and> \<not> (validatePrice (price r) \<and> validateQty (qty r))
        \<longrightarrow> (\<exists>msg. validateDataRows data = Inl (Error msg)))"
proof -
  have "\<exists>msg. validateDataRows data = Inl (Error msg)"
    if "r \<in> set data" "\<not> (validatePrice (price r) \<and> validateQty (qty r))"
  proof -
    from that have "\<not> (\<forall>r \<in> set data. validatePrice (price r) \<and> validateQty (qty r))"
      by blast
    then show ?thesis
      by (simp add: validateDataRows_if)
  qed
  with validatePrice_text [of p] validateQty_integer [of q] show ?thesis
    by blast
qed

theorem validation_accepts_witness:
  "validatePrice (JStr ''10.50'') \<and> parseFloatText ''10.50'' = Finite (21 / 2)
   \<and> \<not> validatePrice (JStr ''ten'') \<and> parseFloatText ''ten'' = NaN
   \<and> validateQty ''3'' \<and> parseInt10 ''3'' = Finite 3
   \<and> \<not> validateQty ''three''
   \<and> (\<exists>msg. validateDataRows [\<lparr>item = ''A'', price = JStr ''10.50'', qty = ''three''\<rparr>] = Inl (Error msg))"
proof -
  have e: "parseFloatText ''10.50'' = Finite (21 / 2)" "parseFloatText ''ten'' = NaN"
    "parseInt10 ''3'' = Finite 3" "parseInt10 ''three'' = NaN"
    by code_simp+
  have i: "Finite 3 = Finite (of_int 3)"
    by simp
  from validation_accepts [of "''10.50''" "''3''"] validation_accepts [of "''ten''" "''three''"
      "\<lparr>item = ''A'', price = JStr ''10.50'', qty = ''three''\<rparr>"
      "[\<lparr>item = ''A'', price = JStr ''10.50'', qty = ''three''\<rparr>]"]
  show ?thesis
    unfolding e by (auto simp: i simp del: of_int_numeral)
qed

theorem validation_accepts_counterexample:
  "validatePrice (JStr ''Infinity'') \<and> parseFloatText ''Infinity'' = PosInfinity
   \<and> validateDataRows [\<lparr>item = ''A'', price = JStr ''Infinity'', qty = ''1''\<rparr>] = Inr ()"
  by code_simp

section \<open>Invoice totals\<close>

lemma calculateInvoiceTotals_if:
  "calculateInvoiceTotals d =
     (let s = foldl (\<lambda>acc r. jadd acc (totalWithTax r)) (Finite 0) (tables d);
          tx = calculateAmount (invoiceData.tax d);
          fee = calculateAmount (invoiceData.otherFee d);
          disc = calculateAmount (invoiceData.discount d);
          ta = jdiv (jmul s (toNumber tx)) (Finite 100);
          fa = jdiv (jmul s (toNumber fee)) (Finite 100);
          tot = jsub (jadd (jadd s ta) fa) (toNumber disc)
      in if s = NaN then Inl (Error ''Both 'value' and 'percent' must be valid numbers.'')
         else Inr \<lparr>subtotal = s, invoiceTotals.tax = tx, taxAmt = ta,
                   invoiceTotals.discount = disc, invoiceTotals.otherFee = fee,
                   otherFeeAmt = fa, invoiceTotals.total = tot,
                   subtotalHtml = formatPrice (JNum s) (currency d),
                   taxAmtHtml = formatPrice (JNum ta) (currency d),
                   otherFeeAmtHtml = formatPrice (JNum fa) (currency d),
                   discountHtml = formatPrice disc (currency d),
                   invoiceTotals.totalHtml = formatPrice (JNum (mathRound tot)) (currency d)\<rparr>)"
  by (simp add: calculateInvoiceTotals_def calculatePercentage_amount Let_def)

text \<open>
  C1, as amended. Let \<open>s\<close> be the sum of \<^verbatim>\<open>totalWithTax\<close> over the line items, added from
  the left starting at 0. If \<open>s\<close> is NaN, \<^verbatim>\<open>calculateInvoiceTotals\<close> throws the error of
  \<^verbatim>\<open>calculatePercentage\<close>. Otherwise it returns totals with \<^verbatim>\<open>subtotal = s\<close>,
  \<^verbatim>\<open>taxAmt = s * tax / 100\<close>, \<^verbatim>\<open>otherFeeAmt = s * otherFee / 100\<close> and
  \<^verbatim>\<open>total = s + taxAmt + otherFeeAmt - discount\<close> for the resolved \<^verbatim>\<open>tax\<close>, \<^verbatim>\<open>otherFee\<close> and
  \<^verbatim>\<open>discount\<close>; \<^verbatim>\<open>totalHtml\<close> is \<^verbatim>\<open>formatPrice\<close> of the total rounded to the nearest integer,
  and every other displayed amount is \<^verbatim>\<open>formatPrice\<close> of the amount itself.
\<close>

theorem calculateInvoiceTotals_totals:
  "let s = foldl (\<lambda>acc r. jadd acc (totalWithTax r)) (Finite 0) (tables d);
       cur = currency d
   in if s = NaN
      then calculateInvoiceTotals d = Inl (Error ''Both 'value' and 'percent' must be valid numbers.'')
      else \<exists>t. calculateInvoiceTotals d = Inr t
             \<and> subtotal t = s
             \<and> taxAmt t = jdiv (jmul s (toNumber (invoiceTotals.tax t))) (Finite 100)
             \<and> otherFeeAmt t = jdiv (jmul s (toNumber (invoiceTotals.otherFee t))) (Finite 100)
             \<and> invoiceTotals.total t =
                 jsub (jadd (jadd s (taxAmt t)) (otherFeeAmt t)) (toNumber (invoiceTotals.discount t))
             \<and> invoiceTotals.totalHtml t = formatPrice (JNum (mathRound (invoiceTotals.total t))) cur
             \<and> subtotalHtml t = formatPrice (JNum s) cur
             \<and> taxAmtHtml t = formatPrice (JNum (taxAmt t)) cur
             \<and> otherFeeAmtHtml t = formatPrice (JNum (otherFeeAmt t)) cur
             \<and> discountHtml t = formatPrice (invoiceTotals.discount t) cur"
  by (simp add: calculateInvoiceTotals_if Let_def)

theorem calculateInvoiceTotals_totals_witness:
  "\<exists>t. calculateInvoiceTotals
          \<lparr>tables = map (pricedRowOf ''GBP'' (JNum (Finite 20)))
             [\<lparr>item = ''A'', price = JStr ''10.00'', qty = ''2''\<rparr>,
              \<lparr>item = ''B'', price = JStr ''15.00'', qty = ''3''\<rparr>],
           invoiceData.tax = JNum (Finite 15), invoiceData.otherFee = JNum (Finite 4),
           invoiceData.discount = JNum (Finite 30), currency = ''GBP''\<rparr> = Inr t
      \<and> subtotal t = Finite 78
      \<and> subtotalHtml t = [CHR 0xC2, CHR 0xA3] @ ''78.00''"
proof -
  let ?d = "\<lparr>tables = map (pricedRowOf ''GBP'' (JNum (Finite 20)))
             [\<lparr>item = ''A'', price = JStr ''10.00'', qty = ''2''\<rparr>,
              \<lparr>item = ''B'', price = JStr ''15.00'', qty = ''3''\<rparr>],
           invoiceData.tax = JNum (Finite 15), invoiceData.otherFee = JNum (Finite 4),
           invoiceData.discount = JNum (Finite 30), currency = ''GBP''\<rparr>"
  have v: "cleanPrice (JStr ''10.00'') = JNum (Finite 10)" "cleanPrice (JStr ''15.00'') = JNum (Finite 15)"
    "stringToNumber ''2'' = Finite 2" "stringToNumber ''3'' = Finite 3"
    "taxRate (JNum (Finite 20)) = JNum (Finite 20)"
    by code_simp+
  have s: "foldl (\<lambda>acc r. jadd acc (totalWithTax r)) (Finite 0) (tables ?d) = Finite 78"
    by (simp add: pricedRowOf_fields v toNumber_def)
  have f: "formatPrice (JNum (Finite 78)) ''GBP'' = [CHR 0xC2, CHR 0xA3] @ ''78.00''"
    by (simp add: formatPrice_def getCurrencySymbol_examples truthy_def propertyText_def
        parseFloat_def format_simps)
  from calculateInvoiceTotals_totals [of ?d] show ?thesis
    unfolding Let_def s by (auto simp: f)
qed

theorem calculateInvoiceTotals_totals_counterexample:
  "validateDataRows [\<lparr>item = ''A'', price = JStr ''10'', qty = ''2abc''\<rparr>] = Inr ()
   \<and> calculateUnitTotals [\<lparr>item = ''A'', price = JStr ''10'', qty = ''2abc''\<rparr>] ''usd'' (JNum (Finite 0))
       = Inr [pricedRowOf ''usd'' (JNum (Finite 0)) \<lparr>item = ''A'', price = JStr ''10'', qty = ''2abc''\<rparr>]
   \<and> calculateInvoiceTotals
        \<lparr>tables = [pricedRowOf ''usd'' (JNum (Finite 0)) \<lparr>item = ''A'', price = JStr ''10'', qty = ''2abc''\<rparr>],
         invoiceData.tax = JNum (Finite 15), invoiceData.otherFee = JNum (Finite 4),
         invoiceData.discount = JNum (Finite 30), currency = ''usd''\<rparr>
       = Inl (Error ''Both 'value' and 'percent' must be valid numbers.'')"
proof -
  have v: "validatePrice (JStr ''10'')" "validateQty ''2abc''" "stringToNumber ''2abc'' = NaN"
    by code_simp+
  show ?thesis
    by (simp add: validateDataRows_if calculateUnitTotals_if calculateInvoiceTotals_if
        pricedRowOf_fields v toNumber_def Let_def)
qed

text \<open>
  C7. The helper \<^verbatim>\<open>calculateAmount\<close> resolves an absent value, \<^verbatim>\<open>null\<close>, NaN and every number
  that is not greater than 0 to 0, and every other number to itself; the \<^verbatim>\<open>tax\<close>,
  \<^verbatim>\<open>otherFee\<close> and \<^verbatim>\<open>discount\<close> that \<^verbatim>\<open>calculateInvoiceTotals\<close> returns are the configured values
  resolved by it.
\<close>

theorem calculateAmount_resolves:
  "calculateAmount JUndefined = JNum (Finite 0)
   \<and> calculateAmount JNull = JNum (Finite 0)
   \<and> calculateAmount (JNum NaN) = JNum (Finite 0)
   \<and> calculateAmount (JNum NegInfinity) = JNum (Finite 0)
   \<and> calculateAmount (JNum (Finite a)) = JNum (if a \<le> 0 then Finite 0 else Finite a)
   \<and> calculateAmount (JNum PosInfinity) = JNum PosInfinity
   \<and> (\<forall>t. calculateInvoiceTotals d = Inr t \<longrightarrow>
         invoiceTotals.tax t = calculateAmount (invoiceData.tax d)
         \<and> invoiceTotals.otherFee t = calculateAmount (invoiceData.otherFee d)
         \<and> invoiceTotals.discount t = calculateAmount (invoiceData.discount d))"
proof -
  have absent: "calculateAmount JUndefined = JNum (Finite 0)"
    by (simp add: calculateAmount_def isValidAmount_def toNumber_def gtZero_def signOf_def)
  have no_value: "calculateAmount JNull = JNum (Finite 0)"
    by (simp add: calculateAmount_def isValidAmount_def)
  have numbers: "calculateAmount (JNum NaN) = JNum (Finite 0)"
    "calculateAmount (JNum NegInfinity) = JNum (Finite 0)"
    "calculateAmount (JNum (Finite a)) = JNum (if a \<le> 0 then Finite 0 else Finite a)"
    "calculateAmount (JNum PosInfinity) = JNum PosInfinity"
    by (simp_all add: calculateAmount_number gtZero_def signOf_def)
  have fields: "invoiceTotals.tax t = calculateAmount (invoiceData.tax d)
      \<and> invoiceTotals.otherFee t = calculateAmount (invoiceData.otherFee d)
      \<and> invoiceTotals.discount t = calculateAmount (invoiceData.discount d)"
    if "calculateInvoiceTotals d = Inr t" for t
    using that by (auto simp: calculateInvoiceTotals_if Let_def split: if_splits)
  from absent no_value numbers fields show ?thesis by blast
qed

theorem calculateAmount_resolves_witness:
  "\<exists>t. calculateInvoiceTotals
          \<lparr>tables = [], invoiceData.tax = JNum (Finite 15), invoiceData.otherFee = JUndefined,
           invoiceData.discount = JNum (Finite (- 3)), currency = ''usd''\<rparr> = Inr t
      \<and> invoiceTotals.tax t = JNum (Finite 15)
      \<and> invoiceTotals.otherFee t = JNum (Finite 0)
      \<and> invoiceTotals.discount t = JNum (Finite 0)"
proof -
  let ?d = "\<lparr>tables = [], invoiceData.tax = JNum (Finite 15), invoiceData.otherFee = JUndefined,
             invoiceData.discount = JNum (Finite (- 3)), currency = ''usd''\<rparr>"
  obtain t where t: "calculateInvoiceTotals ?d = Inr t"
    by (simp add: calculateInvoiceTotals_if Let_def)
  from t calculateAmount_resolves [of 15 ?d] calculateAmount_resolves [of "- 3" ?d]
  have "invoiceTotals.tax t = JNum (Finite 15) \<and> invoiceTotals.otherFee t = JNum (Finite 0)
      \<and> invoiceTotals.discount t = JNum (Finite 0)"
    by simp
  with t show ?thesis by blast
qed

section \<open>The table\<close>

text \<open>Every message of row validation starts with the letter O.\<close>

lemma flatMapIndexed_rowErrors_hd:
  "flatMapIndexed rowErrors k data \<noteq> [] \<Longrightarrow>
   \<exists>t es. flatMapIndexed rowErrors k data = (CHR ''O'' # t) # es"
  by (induction data arbitrary: k) (auto simp: rowErrors_eq)

lemma joinLines_hd: "\<exists>t. joinLines ((c # s) # es) = c # t"
  by (cases es) simp_all

lemma validateDataRows_error:
  assumes "validateDataRows data = Inl e"
  shows "\<exists>t. e = Error (CHR ''O'' # t)"
proof -
  from assms have ne: "flatMapIndexed rowErrors 0 data \<noteq> []"
    and e: "e = Error (joinLines (flatMapIndexed rowErrors 0 data))"
    by (auto simp: validateDataRows_def Let_def split: if_splits)
  from flatMapIndexed_rowErrors_hd [OF ne] obtain t es
    where "flatMapIndexed rowErrors 0 data = (CHR ''O'' # t) # es" by blast
  with e joinLines_hd [of "CHR ''O''" t es] show ?thesis by auto
qed

lemma mapE_Inl_member: "mapE f xs = Inl e \<Longrightarrow> \<exists>x \<in> set xs. f x = Inl e"
  by (induction xs) (auto split: sum.splits)

lemma validatedRow_error: "validatedRow obj = Inl e \<Longrightarrow> \<exists>t. e = Error (CHR ''M'' # t)"
  by (auto simp: validatedRow_def missingColumn_def split: option.splits)

lemma validateAndFilterColumns_error:
  "validateAndFilterColumns objs = Inl e \<Longrightarrow> \<exists>t. e = Error (CHR ''M'' # t)"
  unfolding validateAndFilterColumns_def
  by (blast dest: mapE_Inl_member validatedRow_error)

lemma parseAndValidateTable_Nil:
  "parseAndValidateTable slug None = Inl (Error ''Please provide an estimate table in the markdown content.'')"
  "parseAndValidateTable slug (Some []) = Inl (Error ''Please provide an estimate table in the markdown content.'')"
  by (simp_all add: parseAndValidateTable_def)

lemma parseAndValidateTable_Cons:
  "parseAndValidateTable slug (Some (first # others)) \<noteq>
     Inl (Error ''Please provide an estimate table in the markdown content.'')"
proof
  assume a: "parseAndValidateTable slug (Some (first # others)) =
     Inl (Error ''Please provide an estimate table in the markdown content.'')"
  show False
  proof (cases "validateAndFilterColumns (map (slugifyObjectKeys slug) first)")
    case (Inl e)
    with a have "e = Error ''Please provide an estimate table in the markdown content.''"
      by (simp add: parseAndValidateTable_def)
    with validateAndFilterColumns_error [OF Inl] show False by auto
  next
    case (Inr filteredTable)
    show False
    proof (cases "validateDataRows filteredTable")
      case (Inl e)
      with a Inr have "e = Error ''Please provide an estimate table in the markdown content.''"
        by (simp add: parseAndValidateTable_def)
      with validateDataRows_error [OF Inl] show False by auto
    next
      case Inr2: (Inr u)
      with a Inr show False
        by (simp add: parseAndValidateTable_def)
    qed
  qed
qed

text \<open>
  C6. \<^verbatim>\<open>parseAndValidateTable\<close> throws its "no table" error exactly if the parser found no
  table. A first table without rows is accepted and gives no line items; they give no priced
  rows, and the subtotal of no priced rows is 0.
\<close>

theorem parseAndValidateTable_no_table:
  "(parseAndValidateTable slug jsonTables
      = Inl (Error ''Please provide an estimate table in the markdown content.'')
    \<longleftrightarrow> (case jsonTables of None \<Rightarrow> True | Some results \<Rightarrow> results = []))
   \<and> parseAndValidateTable slug (Some ([] # others)) = Inr []
   \<and> calculateUnitTotals [] cur serviceTax = Inr []
   \<and> (\<exists>t. calculateInvoiceTotals
          \<lparr>tables = [], invoiceData.tax = tx, invoiceData.otherFee = fee,
           invoiceData.discount = disc, currency = cur\<rparr> = Inr t
        \<and> subtotal t = Finite 0)"
proof -
  have first: "parseAndValidateTable slug jsonTables
      = Inl (Error ''Please provide an estimate table in the markdown content.'')
    \<longleftrightarrow> (case jsonTables of None \<Rightarrow> True | Some results \<Rightarrow> results = [])"
  proof (cases jsonTables)
    case None
    then show ?thesis by (simp add: parseAndValidateTable_Nil)
  next
    case (Some results)
    then show ?thesis
      by (cases results) (simp_all add: parseAndValidateTable_Nil parseAndValidateTable_Cons)
  qed
  have second: "parseAndValidateTable slug (Some ([] # others)) = Inr []"
    by (simp add: parseAndValidateTable_def validateAndFilterColumns_def validateDataRows_def)
  have third: "calculateUnitTotals [] cur serviceTax = Inr []"
    by (simp add: calculateUnitTotals_def)
  have fourth: "\<exists>t. calculateInvoiceTotals
          \<lparr>tables = [], invoiceData.tax = tx, invoiceData.otherFee = fee,
           invoiceData.discount = disc, currency = cur\<rparr> = Inr t
        \<and> subtotal t = Finite 0"
    by (simp add: calculateInvoiceTotals_if Let_def)
  from first second third fourth show ?thesis by blast
qed

theorem parseAndValidateTable_no_table_witness:
  "parseAndValidateTable id None
     = Inl (Error ''Please provide an estimate table in the markdown content.'')
   \<and> parseAndValidateTable id (Some [])
     = Inl (Error ''Please provide an estimate table in the markdown content.'')
   \<and> parseAndValidateTable id (Some [[]]) = Inr []
   \<and> calculateUnitTotals [] ''usd'' (JNum (Finite 20)) = Inr []"
  using parseAndValidateTable_no_table [of id None "[]" "''usd''" "JNum (Finite 20)"]
    parseAndValidateTable_no_table [of id "Some []"]
  by simp

section \<open>Placeholders\<close>

lemma startsWith_append: "startsWith p s \<Longrightarrow> s = p @ drop (length p) s"
  by (metis append_take_drop_id startsWith_def)

lemma findClose_text:
  "findClose s = Some (name, rest) \<Longrightarrow> s = name @ ''}}'' @ rest"
proof (induction s arbitrary: name)
  case Nil
  then show ?case by simp
next
  case (Cons c cs)
  show ?case
  proof (cases "startsWith ''}}'' (c # cs)")
    case True
    with Cons.prems have "name = []" "rest = drop 2 (c # cs)" by auto
    with startsWith_append [OF True] show ?thesis by simp
  next
    case False
    with Cons.prems obtain n where n: "findClose cs = Some (n, rest)" "name = c # n"
      by (auto split: if_splits option.splits)
    from Cons.IH [OF n(1)] n(2) show ?thesis by simp
  qed
qed

text \<open>The text of a segment: the match itself, or the character outside every match.\<close>

lemma segments_Match:
  "Match m name \<in> set (segments html) \<Longrightarrow> m = ''{{'' @ name @ ''}}''"
  by (induction html rule: segments.induct) (auto split: if_splits option.splits)

lemma segments_text:
  "concat (map (\<lambda>seg. case seg of Unmatched c \<Rightarrow> [c] | Match m name \<Rightarrow> ''{{'' @ name @ ''}}'')
     (segments html)) = html"
proof (induction html rule: segments.induct)
  case 1
  then show ?case by simp
next
  case (2 c cs)
  show ?case
  proof (cases "startsWith ''{{'' (c # cs)")
    case False
    with 2 show ?thesis by simp
  next
    case True
    show ?thesis
    proof (cases "findClose (drop 2 (c # cs))")
      case None
      with True 2 show ?thesis by simp
    next
      case (Some a)
      obtain name rest where a: "a = (name, rest)" by (cases a)
      from Some a have f: "findClose (drop 2 (c # cs)) = Some (name, rest)"
        by (simp only:)
      from startsWith_append [OF True] have "c # cs = ''{{'' @ drop 2 (c # cs)"
        by simp
      also from findClose_text [OF f] have "drop 2 (c # cs) = name @ ''}}'' @ rest" .
      finally have "c # cs = ''{{'' @ name @ ''}}'' @ rest" .
      moreover from True Some a "2.IH"(2) [OF True Some a [symmetric]]
      have "concat (map (\<lambda>seg. case seg of Unmatched c \<Rightarrow> [c] | Match m name \<Rightarrow> ''{{'' @ name @ ''}}'')
          (segments (c # cs))) = ''{{'' @ name @ ''}}'' @ rest"
        by simp
      ultimately show ?thesis by simp
    qed
  qed
qed

text \<open>
  In terms of the segments the expression cuts a text into: a match is always the token of
  its group, the segments make up the text, and the result holds the value for every match
  whose group is a key and the text of every other segment.
\<close>

lemma replacePlaceholders_segments:
  "replacePlaceholders html data =
     concat (map (\<lambda>seg. case seg of
                     Unmatched c \<Rightarrow> [c]
                   | Match m name \<Rightarrow> (case data name of Some v \<Rightarrow> v | None \<Rightarrow> ''{{'' @ name @ ''}}''))
       (segments html))
   \<and> html = concat (map (\<lambda>seg. case seg of Unmatched c \<Rightarrow> [c] | Match m name \<Rightarrow> ''{{'' @ name @ ''}}'')
       (segments html))
   \<and> ((\<forall>m name. Match m name \<in> set (segments html) \<longrightarrow> data name = None)
        \<longrightarrow> replacePlaceholders html data = html)"
proof -
  have eq: "(case seg of Unmatched c \<Rightarrow> [c]
             | Match m name \<Rightarrow> (case data name of Some v \<Rightarrow> v | None \<Rightarrow> m))
          = (case seg of Unmatched c \<Rightarrow> [c]
             | Match m name \<Rightarrow> (case data name of Some v \<Rightarrow> v | None \<Rightarrow> ''{{'' @ name @ ''}}''))"
    if "seg \<in> set (segments html)" for seg
  proof (cases seg)
    case (Unmatched c)
    then show ?thesis by simp
  next
    case (Match m name)
    with that have "Match m name \<in> set (segments html)"
      by simp
    then have "m = ''{{'' @ name @ ''}}''"
      by (rule segments_Match)
    with Match show ?thesis by (simp split: option.split)
  qed
  have first: "replacePlaceholders html data =
     concat (map (\<lambda>seg. case seg of
                     Unmatched c \<Rightarrow> [c]
                   | Match m name \<Rightarrow> (case data name of Some v \<Rightarrow> v | None \<Rightarrow> ''{{'' @ name @ ''}}''))
       (segments html))"
    unfolding replacePlaceholders_def using eq by (metis (no_types, lifting) map_eq_conv)
  have same: "(case seg of Unmatched c \<Rightarrow> [c]
             | Match m name \<Rightarrow> (case data name of Some v \<Rightarrow> v | None \<Rightarrow> ''{{'' @ name @ ''}}''))
          = (case seg of Unmatched c \<Rightarrow> [c] | Match m name \<Rightarrow> ''{{'' @ name @ ''}}'')"
    if "seg \<in> set (segments html)" "\<forall>m name. Match m name \<in> set (segments html) \<longrightarrow> data name = None"
    for seg
  proof (cases seg)
    case (Unmatched c)
    then show ?thesis by simp
  next
    case (Match m name)
    with that have "data name = None" by blast
    with Match show ?thesis by simp
  qed
  have third: "replacePlaceholders html data = html"
    if none: "\<forall>m name. Match m name \<in> set (segments html) \<longrightarrow> data name = None"
  proof -
    have "map (\<lambda>seg. case seg of
                     Unmatched c \<Rightarrow> [c]
                   | Match m name \<Rightarrow> (case data name of Some v \<Rightarrow> v | None \<Rightarrow> ''{{'' @ name @ ''}}''))
            (segments html)
        = map (\<lambda>seg. case seg of Unmatched c \<Rightarrow> [c] | Match m name \<Rightarrow> ''{{'' @ name @ ''}}'')
            (segments html)"
      using same [OF _ none] by (simp cong: map_cong)
    with first segments_text [of html] show ?thesis by simp
  qed
  from first segments_text [of html, symmetric] third show ?thesis by blast
qed











section \<open>Formatting prices\<close>

text \<open>
  Codes of the table give their symbol before the amount, in either case of the letters,
  and a code such as \<^verbatim>\<open>xyz\<close> gives the amount alone.
\<close>

lemma formatPrice_examples:
  "formatPrice (JNum (Finite (19999 / 1000))) ''gbp'' = [CHR 0xC2, CHR 0xA3] @ ''20.00''
   \<and> formatPrice (JNum (Finite 5)) ''xyz'' = ''5.00''
   \<and> formatPrice (JNum (Finite 5)) ''GBP'' = [CHR 0xC2, CHR 0xA3] @ ''5.00''"
  by (simp add: formatPrice_def getCurrencySymbol_examples truthy_def propertyText_def
      parseFloat_def format_simps)

text \<open>
  C9 at the code \<^verbatim>\<open>__proto__\<close>, which is not in the table: \<^verbatim>\<open>curr[code]\<close> reads the member that
  the first object of the table inherits, and \<^verbatim>\<open>formatPrice\<close> puts its text before the amount.
\<close>

theorem formatPrice_inherited_member:
  "formatPrice (JNum (Finite 5)) ''__proto__'' = ''[object Object]5.00''"
  by (simp add: formatPrice_def getCurrencySymbol_examples truthy_def propertyText_def
      parseFloat_def format_simps)

end
